theory Spec2Isabelle
  imports Main "HOL-Library.Sublist"
begin

section \<open>Python exceptions\<close>

text \<open>
  An exception raised by the Python code is a value of \<open>exn\<close>. A function that may raise
  returns \<open>exn + 'a\<close> (\<open>Inl\<close> the exception), or a pair of an \<open>exn option\<close> and the state
  reached when the exception left the function (\<open>None\<close>: it returned normally).
  Calls into the widget toolkit (wx cursor and control methods, Qt menu calls) are
  recorded in a trace and do not raise; calls into user code (the interpreter's push,
  registered handlers, an executed script) may.
\<close>

datatype exn =
    KeyError string
  | ValueError
  | ConditionTimeoutError
  | AssertionError
  | Exception nat

section \<open>pyface/ui/wx/python_shell.py: class PyShell\<close>

text \<open>The toolkit calls the methods of \<open>PyShell\<close> make, with their arguments.\<close>

datatype wx_call =
    BeginBusyCursor
  | EndBusyCursor
  | addHistory string
  | CallHandler nat
  | AutoCompSetAutoHide bool
  | AutoCompSetIgnoreCase bool
  | AutoCompShow int string
  | clearCommand
  | control_write string
  | prompt

text \<open>
  The attributes of a \<open>PyShell\<close> the modelled methods read or write. A handler is
  a callable; it is named by a number, and what calling it does is given by the
  parameter \<open>run\<close> of \<open>hidden_push\<close>. \<open>shell_more\<close> is the attribute \<open>more\<close> (a reserved
  field name of records). \<open>wx_calls\<close> is the trace of the toolkit calls made on the
  control, oldest first.
\<close>

record PyShell =
  handlers :: "nat list"
  autocomp_list :: "string list"
  waiting :: bool
  shell_more :: bool
  autoCompleteAutoHide :: bool
  autoCompleteCaseInsensitive :: bool
  autoCompleteIncludeMagic :: bool
  wx_calls :: "wx_call list"

definition wx :: "wx_call \<Rightarrow> PyShell \<Rightarrow> PyShell" where
  "wx c s = s\<lparr>wx_calls := wx_calls s @ [c]\<rparr>"
















text \<open>\<open>' '.join(xs)\<close>.\<close>

fun join :: "string \<Rightarrow> string list \<Rightarrow> string" where
  "join sep [] = []"
| "join sep [x] = x"
| "join sep (x # y # ys) = x @ sep @ join sep (y # ys)"

text \<open>\<open>v.startswith(filter)\<close>.\<close>

definition startswith :: "string \<Rightarrow> string \<Rightarrow> bool" where
  "startswith v p = (take (length p) v = p)"

text \<open>
  \<^verbatim>\<open>for v in values: if v.startswith(filter): self.autocomp_list.append(v)\<close>
\<close>

fun append_matching :: "string \<Rightarrow> string list \<Rightarrow> PyShell \<Rightarrow> PyShell" where
  "append_matching f [] s = s"
| "append_matching f (v # vs) s =
     append_matching f vs
       (if startswith v f then s\<lparr>autocomp_list := autocomp_list s @ [v]\<rparr> else s)"

text \<open>Python's truth value of the \<open>filter\<close> argument: \<open>None\<close> and the empty string are false.\<close>

fun truthy :: "string option \<Rightarrow> bool" where
  "truthy None = False"
| "truthy (Some f) = (f \<noteq> [])"

text \<open>
  \<open>PyShell.autoCompleteShow\<close>. \<open>getAutoCompleteList\<close> is the interpreter's method, called
  with \<open>command\<close>, \<open>includeMagic\<close>, \<open>includeSingle = False\<close> and \<open>includeDouble = False\<close>;
  \<open>filter'\<close> is the argument \<open>filter\<close>.
\<close>

definition autoCompleteShow ::
  "(string \<Rightarrow> bool \<Rightarrow> bool \<Rightarrow> bool \<Rightarrow> string list) \<Rightarrow> string \<Rightarrow> int \<Rightarrow> string option
     \<Rightarrow> PyShell \<Rightarrow> PyShell" where
  "autoCompleteShow getAutoCompleteList command offset filter' s =
     (let s1 = wx (AutoCompSetAutoHide (autoCompleteAutoHide s)) s;
          s2 = wx (AutoCompSetIgnoreCase (autoCompleteCaseInsensitive s1)) s1;
          values = getAutoCompleteList command (autoCompleteIncludeMagic s2) False False
      in if values \<noteq> [] then
           (let s3 = s2\<lparr>autocomp_list := []\<rparr>;
                s4 = (if truthy filter' then append_matching (the filter') values s3
                      else s3\<lparr>autocomp_list := values\<rparr>);
                options = join '' '' (autocomp_list s4)
            in wx (AutoCompShow offset options) s4)
         else s2)"

text \<open>The calls a method added to the trace of a shell.\<close>

definition new_calls :: "PyShell \<Rightarrow> PyShell \<Rightarrow> wx_call list" where
  "new_calls s s' = drop (length (wx_calls s)) (wx_calls s')"

text \<open>The popup is shown by the toolkit call \<open>AutoCompShow\<close>.\<close>

fun is_AutoCompShow :: "wx_call \<Rightarrow> bool" where
  "is_AutoCompShow (AutoCompShow offset options) = True"
| "is_AutoCompShow c = False"

text \<open>A shell as \<open>PyShell.__init__\<close> leaves it, with the given handlers registered.\<close>

definition shell0 :: "nat list \<Rightarrow> PyShell" where
  "shell0 hs = \<lparr>handlers = hs, autocomp_list = [], waiting = False, shell_more = False,
     autoCompleteAutoHide = False, autoCompleteCaseInsensitive = True,
     autoCompleteIncludeMagic = True, wx_calls = []\<rparr>"

section \<open>pyface/ui/wx/python_shell.py: PythonShell.execute_file\<close>

text \<open>
  The objects \<open>sys.stdin\<close>, \<open>sys.stdout\<close> and \<open>sys.stderr\<close> can hold: an instance of
  \<open>_NullIO\<close>, the shell's control, or any other stream object.
\<close>

datatype stream = NullIO | ShellControl | Stream nat

text \<open>A module object: one made by \<open>types.ModuleType(name)\<close>, or any other module.\<close>

datatype pymodule = ModuleType string | Module nat

text \<open>The values of a namespace, as far as \<open>execute_file\<close> tells them apart.\<close>

datatype pyval = PyStr string | PyNone | LambdaTrue | PyObject nat

type_synonym namespace = "string \<rightharpoonup> pyval"

text \<open>
  The state \<open>execute_file\<close> works on: the attributes of the module \<open>sys\<close> it assigns
  (\<open>sys.modules\<close> is a dictionary), the shell's control, and the \<open>locals\<close> dictionary of
  the interpreter.
\<close>

record world =
  sys_argv :: "string list"
  sys_modules :: "string \<rightharpoonup> pymodule"
  sys_stdin :: stream
  sys_stdout :: stream
  sys_stderr :: stream
  control :: PyShell
  interp_locals :: namespace

text \<open>
  \<^verbatim>\<open>exec(compile(open(path, "rb").read(), path, 'exec'), prog_ns, prog_ns)\<close> is a
  parameter: given the path, the namespace and the world it starts in, the script ends
  normally or raises (as \<open>open\<close> and \<open>compile\<close> can), and leaves a namespace and a world,
  both changed as it likes.
\<close>

type_synonym script = "string \<Rightarrow> namespace \<Rightarrow> world \<Rightarrow> exn option \<times> namespace \<times> world"

definition control_call :: "wx_call \<Rightarrow> world \<Rightarrow> world" where
  "control_call c w = w\<lparr>control := wx c (control w)\<rparr>"

text \<open>The \<open>__dict__\<close> of a module fresh from \<open>types.ModuleType(name)\<close>.\<close>

definition module_dict :: "string \<Rightarrow> namespace" where
  "module_dict n = [''__name__'' \<mapsto> PyStr n, ''__doc__'' \<mapsto> PyNone, ''__package__'' \<mapsto> PyNone,
                    ''__loader__'' \<mapsto> PyNone, ''__spec__'' \<mapsto> PyNone]"

text \<open>\<^verbatim>\<open>prog_ns = main_mod.__dict__\<close> with \<open>__file__\<close> and \<open>__nonzero__\<close> set (lines 95-98).\<close>

definition prog_ns :: "string \<Rightarrow> namespace" where
  "prog_ns filename =
     (module_dict ''__main__'')(''__file__'' \<mapsto> PyStr filename, ''__nonzero__'' \<mapsto> LambdaTrue)"

text \<open>Lines 113-116: \<^verbatim>\<open>sys.stdin = sys.stdout = sys.stderr = ...\<close>\<close>

definition redirect :: "bool \<Rightarrow> world \<Rightarrow> world" where
  "redirect hidden w =
     (if hidden
      then w\<lparr>sys_stdin := NullIO, sys_stdout := NullIO, sys_stderr := NullIO\<rparr>
      else w\<lparr>sys_stdin := ShellControl, sys_stdout := ShellControl, sys_stderr := ShellControl\<rparr>)"

text \<open>Lines 120-122, the statements of the \<^verbatim>\<open>try\<close> block before the script.\<close>

definition announce :: "string \<Rightarrow> bool \<Rightarrow> world \<Rightarrow> world" where
  "announce path hidden w =
     (if \<not> hidden
      then control_call (control_write (''# Executing '' @ [CHR 0x22] @ path @ [CHR 0x22, CHR 0x0A]))
             (control_call clearCommand w)
      else w)"

text \<open>Lines 119-127, the \<^verbatim>\<open>try\<close> block.\<close>

definition execute_file_try ::
  "script \<Rightarrow> string \<Rightarrow> bool \<Rightarrow> namespace \<Rightarrow> world \<Rightarrow> exn option \<times> namespace \<times> world" where
  "execute_file_try script path hidden ns w =
     (case script path ns (announce path hidden w) of
        (Some e, ns', w') \<Rightarrow> (Some e, ns', w')
      | (None, ns', w') \<Rightarrow> (None, ns', if \<not> hidden then control_call prompt w' else w'))"

text \<open>Lines 130-134, the \<^verbatim>\<open>finally\<close> block.\<close>

definition restore :: "string list \<Rightarrow> pymodule \<Rightarrow> stream \<Rightarrow> stream \<Rightarrow> stream \<Rightarrow> world \<Rightarrow> world" where
  "restore save_argv save_main old_stdin old_stdout old_stderr w =
     w\<lparr>sys_argv := save_argv,
       sys_modules := (sys_modules w)(''__main__'' \<mapsto> save_main),
       sys_stdin := old_stdin,
       sys_stdout := old_stdout,
       sys_stderr := old_stderr\<rparr>"

text \<open>\<^verbatim>\<open>del d[k]\<close> raises \<open>KeyError\<close> when the key is missing.\<close>

definition del :: "string \<Rightarrow> namespace \<Rightarrow> exn + namespace" where
  "del k d = (case d k of None \<Rightarrow> Inl (KeyError k) | Some v \<Rightarrow> Inr (d(k := None)))"

text \<open>Lines 137-140, after the \<^verbatim>\<open>try\<close> statement.\<close>

definition update_interpreter :: "namespace \<Rightarrow> world \<Rightarrow> exn option \<times> world" where
  "update_interpreter ns w =
     (case del ''__name__'' ns of
        Inl e \<Rightarrow> (Some e, w)
      | Inr ns1 \<Rightarrow>
          (case del ''__file__'' ns1 of
             Inl e \<Rightarrow> (Some e, w)
           | Inr ns2 \<Rightarrow>
               (case del ''__nonzero__'' ns2 of
                  Inl e \<Rightarrow> (Some e, w)
                | Inr ns3 \<Rightarrow> (None, w\<lparr>interp_locals := interp_locals w ++ ns3\<rparr>))))"

text \<open>
  \<open>PythonShell.execute_file\<close>. \<open>basename\<close> is \<open>os.path.basename\<close>. The lookup
  \<^verbatim>\<open>sys.modules['__main__']\<close> of line 106 raises \<open>KeyError\<close> when the dictionary has no
  such key; \<open>sys.argv\<close> is assigned by then. The result is the exception that leaves the
  method, if any, and the world it leaves.
\<close>

definition execute_file ::
  "(string \<Rightarrow> string) \<Rightarrow> script \<Rightarrow> string \<Rightarrow> bool \<Rightarrow> world \<Rightarrow> exn option \<times> world" where
  "execute_file basename script path hidden w =
     (let filename = basename path;
          main_mod = ModuleType ''__main__'';
          ns = prog_ns filename;
          save_argv = sys_argv w;
          w1 = w\<lparr>sys_argv := [filename]\<rparr>
      in case sys_modules w1 ''__main__'' of
           None \<Rightarrow> (Some (KeyError ''__main__''), w1)
         | Some save_main \<Rightarrow>
             (let w2 = w1\<lparr>sys_modules := (sys_modules w1)(''__main__'' \<mapsto> main_mod)\<rparr>;
                  old_stdin = sys_stdin w2;
                  old_stdout = sys_stdout w2;
                  old_stderr = sys_stderr w2;
                  w3 = redirect hidden w2;
                  (e, ns', w4) = execute_file_try script path hidden ns w3;
                  w5 = restore save_argv save_main old_stdin old_stdout old_stderr w4
              in case e of
                   Some x \<Rightarrow> (Some x, w5)
                 | None \<Rightarrow> update_interpreter ns' w5))"

text \<open>
  The world in which \<open>execute_file\<close> starts the script: \<open>sys.argv\<close> and
  \<open>sys.modules['__main__']\<close> replaced, the streams redirected, the script announced.
\<close>

definition script_world :: "(string \<Rightarrow> string) \<Rightarrow> string \<Rightarrow> bool \<Rightarrow> world \<Rightarrow> world" where
  "script_world basename path hidden w =
     announce path hidden
       (redirect hidden
          (w\<lparr>sys_argv := [basename path],
             sys_modules := (sys_modules w)(''__main__'' \<mapsto> ModuleType ''__main__'')\<rparr>))"

text \<open>The object the streams are redirected to.\<close>

definition redirect_target :: "bool \<Rightarrow> stream" where
  "redirect_target hidden = (if hidden then NullIO else ShellControl)"

text \<open>\<open>posixpath.basename\<close>, the \<open>os.path.basename\<close> of a POSIX system.\<close>

definition posix_basename :: "string \<Rightarrow> string" where
  "posix_basename p = rev (takeWhile (\<lambda>c. c \<noteq> CHR ''/'') (rev p))"

text \<open>A world before any redirection, with a \<open>__main__\<close> module and the given streams.\<close>

definition world0 :: world where
  "world0 = \<lparr>sys_argv = [''app.py''], sys_modules = [''__main__'' \<mapsto> Module 0],
     sys_stdin = Stream 0, sys_stdout = Stream 1, sys_stderr = Stream 2,
     control = shell0 [], interp_locals = Map.empty\<rparr>"

text \<open>
  A script that assigns \<open>sys.stdout\<close> and \<open>sys.argv\<close>, empties \<open>sys.modules\<close>, and then
  raises.
\<close>

definition raising_script :: script where
  "raising_script p ns w =
     (Some (Exception 7), ns, w\<lparr>sys_stdout := Stream 9, sys_argv := [], sys_modules := Map.empty\<rparr>)"

section \<open>pyface/ui/qt4/action/menu_bar_manager.py: MenuBarManager.create_menu_bar\<close>

text \<open>
  The \<open>parent\<close> argument: \<open>None\<close>, a \<open>QMainWindow\<close>, or a widget of another class. Qt objects
  are named by numbers.
\<close>

datatype widget = NoParent | QWidget nat | QMainWindow nat

text \<open>
  An item of a group of a menu bar manager. The source requires every item of every group
  to be a menu manager: it has a \<open>name\<close> and the method \<open>create_menu\<close>.
\<close>

record MenuManager =
  name :: string
  manager_id :: nat

record Group =
  items :: "MenuManager list"

record MenuBarManager =
  groups :: "Group list"
  controller :: "nat option"

text \<open>
  The calls \<open>create_menu_bar\<close> makes, with their arguments and, last, the object returned:
  \<open>parent.menuBar()\<close>, \<open>bar.setParent(None)\<close>, the constructor \<open>QtWidgets.QMenuBar(parent)\<close>,
  \<open>item.create_menu(parent, controller)\<close>, \<open>menu.menuAction().setText(text)\<close> and
  \<open>menu_bar.addMenu(menu)\<close>.
\<close>

datatype qt_call =
    menuBar widget nat
  | setParent_None nat
  | QMenuBar widget nat
  | create_menu MenuManager widget "nat option" nat
  | setText nat string
  | addMenu nat nat

text \<open>
  The state of Qt: the next unused object number, the menu bar each main window holds (if
  any), and the trace of calls, oldest first.
\<close>

record qt =
  next_object :: nat
  menu_bar_of :: "nat \<Rightarrow> nat option"
  qt_calls :: "qt_call list"

definition qt_call :: "qt_call \<Rightarrow> qt \<Rightarrow> qt" where
  "qt_call c q = q\<lparr>qt_calls := qt_calls q @ [c]\<rparr>"

text \<open>
  \<open>QMainWindow.menuBar()\<close> returns the menu bar of the window, and creates an empty one for
  the window when it has none (Qt's documentation of the method).
\<close>

definition window_menuBar :: "nat \<Rightarrow> qt \<Rightarrow> nat \<times> qt" where
  "window_menuBar win q =
     (case menu_bar_of q win of
        Some bar \<Rightarrow> (bar, qt_call (menuBar (QMainWindow win) bar) q)
      | None \<Rightarrow>
          (let bar = next_object q
           in (bar, qt_call (menuBar (QMainWindow win) bar)
                      (q\<lparr>next_object := Suc bar, menu_bar_of := (menu_bar_of q)(win := Some bar)\<rparr>))))"

text \<open>
  \<open>bar.setParent(None)\<close>. Whether a main window still holds a menu bar that was given
  another parent is Qt's affair and not written in this repository: the parameter
  \<open>releases\<close> says whether the window lets go of it (Qt's layouts forget a child widget that
  is removed from its parent).
\<close>

definition bar_setParent_None :: "bool \<Rightarrow> nat \<Rightarrow> qt \<Rightarrow> qt" where
  "bar_setParent_None releases bar q =
     qt_call (setParent_None bar)
       (if releases
        then q\<lparr>menu_bar_of := (\<lambda>win. if menu_bar_of q win = Some bar then None else menu_bar_of q win)\<rparr>
        else q)"

text \<open>The constructor \<open>QtWidgets.QMenuBar(parent)\<close> makes a new menu bar.\<close>

definition new_QMenuBar :: "widget \<Rightarrow> qt \<Rightarrow> nat \<times> qt" where
  "new_QMenuBar parent q =
     (let bar = next_object q
      in (bar, qt_call (QMenuBar parent bar) (q\<lparr>next_object := Suc bar\<rparr>)))"

text \<open>\<open>item.create_menu(parent, controller)\<close> makes a new menu.\<close>

definition item_create_menu :: "MenuManager \<Rightarrow> widget \<Rightarrow> nat option \<Rightarrow> qt \<Rightarrow> nat \<times> qt" where
  "item_create_menu item parent c q =
     (let menu = next_object q
      in (menu, qt_call (create_menu item parent c menu) (q\<lparr>next_object := Suc menu\<rparr>)))"

text \<open>Lines 51-54, \<^verbatim>\<open>for item in group.items: ...\<close>\<close>

fun add_items :: "widget \<Rightarrow> nat option \<Rightarrow> nat \<Rightarrow> MenuManager list \<Rightarrow> qt \<Rightarrow> qt" where
  "add_items parent c menu_bar [] q = q"
| "add_items parent c menu_bar (item # rest) q =
     (let (menu, q1) = item_create_menu item parent c q;
          q2 = qt_call (setText menu (name item)) q1;
          q3 = qt_call (addMenu menu_bar menu) q2
      in add_items parent c menu_bar rest q3)"

text \<open>Lines 50-54, \<^verbatim>\<open>for group in self.groups: ...\<close>\<close>

fun add_groups :: "widget \<Rightarrow> nat option \<Rightarrow> nat \<Rightarrow> Group list \<Rightarrow> qt \<Rightarrow> qt" where
  "add_groups parent c menu_bar [] q = q"
| "add_groups parent c menu_bar (g # rest) q =
     add_groups parent c menu_bar rest (add_items parent c menu_bar (items g) q)"

text \<open>\<^verbatim>\<open>isinstance(parent, QtWidgets.QMainWindow)\<close>\<close>

fun is_QMainWindow :: "widget \<Rightarrow> bool" where
  "is_QMainWindow (QMainWindow win) = True"
| "is_QMainWindow parent = False"

text \<open>
  Lines 43-47: the menu bar. In the first branch \<open>parent\<close> is a \<open>QMainWindow\<close>, the only
  class of widgets with the method \<open>menuBar\<close>.
\<close>

fun the_menu_bar :: "bool \<Rightarrow> string \<Rightarrow> widget \<Rightarrow> qt \<Rightarrow> nat \<times> qt" where
  "the_menu_bar releases platform (QMainWindow win) q =
     (if platform = ''darwin''
      then (let (old_bar, q1) = window_menuBar win q;
                q2 = bar_setParent_None releases old_bar q1
            in window_menuBar win q2)
      else new_QMenuBar (QMainWindow win) q)"
| "the_menu_bar releases platform parent q = new_QMenuBar parent q"

text \<open>
  \<open>MenuBarManager.create_menu_bar\<close>. \<open>platform\<close> is \<open>sys.platform\<close>; \<open>controller'\<close> is the
  argument \<open>controller\<close>, \<open>controller self\<close> the trait of the manager.
\<close>

definition create_menu_bar ::
  "bool \<Rightarrow> string \<Rightarrow> MenuBarManager \<Rightarrow> widget \<Rightarrow> nat option \<Rightarrow> qt \<Rightarrow> nat \<times> qt" where
  "create_menu_bar releases platform self parent controller' q =
     (let c = (case controller' of None \<Rightarrow> controller self | Some x \<Rightarrow> Some x);
          (menu_bar, q1) = the_menu_bar releases platform parent q
      in (menu_bar, add_groups parent c menu_bar (groups self) q1))"

text \<open>The calls added to the trace of Qt.\<close>

definition new_qt_calls :: "qt \<Rightarrow> qt \<Rightarrow> qt_call list" where
  "new_qt_calls q q' = drop (length (qt_calls q)) (qt_calls q')"

text \<open>The three calls made for the item that gets the menu numbered \<open>menu\<close>.\<close>

definition item_calls :: "widget \<Rightarrow> nat option \<Rightarrow> nat \<Rightarrow> nat \<times> MenuManager \<Rightarrow> qt_call list" where
  "item_calls parent c menu_bar = (\<lambda>(menu, item).
     [create_menu item parent c menu, setText menu (name item), addMenu menu_bar menu])"

text \<open>All items of all groups, in the order of their declaration.\<close>

definition all_items :: "MenuBarManager \<Rightarrow> MenuManager list" where
  "all_items self = concat (map items (groups self))"

text \<open>A Qt state in which main window 0 holds menu bar 5; a manager with two groups.\<close>

definition qt0 :: qt where
  "qt0 = \<lparr>next_object = 10, menu_bar_of = (\<lambda>win. if win = 0 then Some 5 else None), qt_calls = []\<rparr>"

definition file_edit_help :: MenuBarManager where
  "file_edit_help =
     \<lparr>groups = [\<lparr>items = [\<lparr>name = ''File'', manager_id = 1\<rparr>, \<lparr>name = ''Edit'', manager_id = 2\<rparr>]\<rparr>,
                 \<lparr>items = [\<lparr>name = ''Help'', manager_id = 3\<rparr>]\<rparr>],
       controller = Some 40\<rparr>"

section \<open>pyface/ui/qt4/util/gui_test_assistant.py: GuiTestAssistant\<close>

text \<open>
  The state of one use of \<open>event_loop_until_traits_change\<close>: the flag of the
  \<open>threading.Event\<close> \<open>condition\<close>, the set \<open>recorded_changes\<close>, the traits of
  \<open>traits_object\<close> on which a handler of this call is installed, and the number of rounds
  the event loop has run.
\<close>

record traits_change_loop =
  condition :: bool
  recorded_changes :: "string set"
  installed :: "string list"
  rounds :: nat

text \<open>Lines 194-197, \<open>set_event\<close>; \<open>traits\<close> is the set of trait names.\<close>

definition set_event :: "string set \<Rightarrow> string \<Rightarrow> traits_change_loop \<Rightarrow> traits_change_loop" where
  "set_event traits trait s =
     (let s1 = s\<lparr>recorded_changes := insert trait (recorded_changes s)\<rparr>
      in if recorded_changes s1 = traits then s1\<lparr>condition := True\<rparr> else s1)"

text \<open>
  \<open>traits_object\<close> notifies a change of a trait: the handler installed on that trait, if
  there is one, runs (lines 199-202: it calls \<open>set_event(trait)\<close>).
\<close>

definition trait_changed :: "string set \<Rightarrow> string \<Rightarrow> traits_change_loop \<Rightarrow> traits_change_loop" where
  "trait_changed traits trait s =
     (if trait \<in> set (installed s) then set_event traits trait s else s)"

text \<open>A sequence of change notifications, in order.\<close>

fun deliver :: "string set \<Rightarrow> string list \<Rightarrow> traits_change_loop \<Rightarrow> traits_change_loop" where
  "deliver traits [] s = s"
| "deliver traits (t # ts) s = deliver traits ts (trait_changed traits t s)"

text \<open>
  \<open>traits_object.on_trait_change(handler, trait)\<close> and
  \<open>traits_object.on_trait_change(handler, trait, remove=True)\<close>.
\<close>

definition on_trait_change :: "string \<Rightarrow> traits_change_loop \<Rightarrow> traits_change_loop" where
  "on_trait_change trait s = s\<lparr>installed := installed s @ [trait]\<rparr>"

definition on_trait_change_remove :: "string \<Rightarrow> traits_change_loop \<Rightarrow> traits_change_loop" where
  "on_trait_change_remove trait s = s\<lparr>installed := remove1 trait (installed s)\<rparr>"

text \<open>
  Lines 184-207, up to the \<^verbatim>\<open>try\<close>: the condition is new (not set) and set at once when
  there is no trait; one handler per distinct trait name is installed (\<open>handlers\<close> is a
  dictionary keyed by the elements of the set).
\<close>

definition armed :: "string list \<Rightarrow> traits_change_loop" where
  "armed traits =
     (let s0 = \<lparr>condition = False, recorded_changes = {}, installed = [], rounds = 0\<rparr>;
          s1 = (if set traits = {} then s0\<lparr>condition := True\<rparr> else s0)
      in foldl (\<lambda>s trait. on_trait_change trait s) s1 (remdups traits))"

text \<open>
  Modelled from the spec: \<open>EventLoopHelper.event_loop_until_condition\<close> (module
  \<open>event_loop_helper\<close>, not among the sources). The spec calls it a bounded wait for a
  condition; the docstring of its caller says it runs the event loop until the condition
  evaluates to true, the timeout bounding the run in the case that the condition is not
  satisfied. \<open>ticks\<close> are the rounds of the event loop that fit in the timeout, each with
  the change notifications it delivers. The helper returns once the condition holds, and
  raises \<open>ConditionTimeoutError\<close> when the rounds are used up without it.
\<close>

fun helper_event_loop_until_condition ::
  "string set \<Rightarrow> string list list \<Rightarrow> traits_change_loop \<Rightarrow> exn option \<times> traits_change_loop" where
  "helper_event_loop_until_condition traits [] s =
     (if condition s then (None, s) else (Some ConditionTimeoutError, s))"
| "helper_event_loop_until_condition traits (tick # ticks) s =
     (if condition s then (None, s)
      else helper_event_loop_until_condition traits ticks
             ((deliver traits tick s)\<lparr>rounds := Suc (rounds s)\<rparr>))"

text \<open>
  The block under the \<^verbatim>\<open>with\<close> statement: the change notifications it causes, in order, and
  the exception it ends with, if any.
\<close>

type_synonym block = "string list \<times> exn option"

text \<open>
  Lines 103-125, the context manager \<open>GuiTestAssistant.event_loop_until_condition\<close> around
  a block: the block runs at the \<^verbatim>\<open>yield\<close>, then the helper; a \<open>ConditionTimeoutError\<close>
  from either is turned into the failure of the test by \<open>self.fail\<close>, any other exception
  passes.
\<close>

definition event_loop_until_condition ::
  "string set \<Rightarrow> block \<Rightarrow> string list list \<Rightarrow> traits_change_loop
     \<Rightarrow> exn option \<times> traits_change_loop" where
  "event_loop_until_condition traits body ticks s =
     (let s1 = deliver traits (fst body) s;
          (e, s2) = (case snd body of
                       Some x \<Rightarrow> (Some x, s1)
                     | None \<Rightarrow> helper_event_loop_until_condition traits ticks s1)
      in if e = Some ConditionTimeoutError then (Some AssertionError, s2) else (e, s2))"

text \<open>
  Lines 169-214, \<open>GuiTestAssistant.event_loop_until_traits_change\<close> around a block. The
  \<^verbatim>\<open>finally\<close> clause removes the handlers however the \<^verbatim>\<open>with\<close> statement ended.
\<close>

definition event_loop_until_traits_change ::
  "string list \<Rightarrow> block \<Rightarrow> string list list \<Rightarrow> exn option \<times> traits_change_loop" where
  "event_loop_until_traits_change traits body ticks =
     (let (e, s) = event_loop_until_condition (set traits) body ticks (armed traits)
      in (e, foldl (\<lambda>s trait. on_trait_change_remove trait s) s (remdups traits)))"

text \<open>The notifications delivered by the block and by the rounds the event loop has run.\<close>

definition delivered :: "block \<Rightarrow> string list list \<Rightarrow> nat \<Rightarrow> string list" where
  "delivered body ticks n = fst body @ concat (take n ticks)"

text \<open>
  What holds of the state while the handlers are installed: they are installed on the
  listed traits, only listed traits are recorded, and the condition is set exactly when
  all of them are.
\<close>

definition loop_inv :: "string set \<Rightarrow> traits_change_loop \<Rightarrow> bool" where
  "loop_inv T s = (set (installed s) = T \<and> recorded_changes s \<subseteq> T
                   \<and> condition s = (recorded_changes s = T))"

section \<open>pyface/single_choice_dialog.py, pyface/toolkit.py (known from their tests and callers)\<close>

text \<open>Whether a list of strings has an entry that occurs again later in it.\<close>

fun repeated :: "string list \<Rightarrow> bool" where
  "repeated [] = False"
| "repeated (x # xs) = (x \<in> set xs \<or> repeated xs)"

text \<open>
  Modelled from the spec: \<open>SingleChoiceDialog._choice_strings\<close>; the class is not among the
  sources, its tests are. The spec: a dialog's choice list must reject empty or duplicate
  entries, and an invalid list raises a value error. The tests: the result is the list
  of the choices converted by \<open>str\<close>, each choice replaced by its attribute named
  \<open>name_attribute\<close> when that name is set (not the empty string). \<open>str\<close> and \<open>getattr\<close>
  are parameters.
\<close>

definition choice_strings ::
  "('a \<Rightarrow> string) \<Rightarrow> ('a \<Rightarrow> string \<Rightarrow> 'a) \<Rightarrow> string \<Rightarrow> 'a list \<Rightarrow> exn + string list" where
  "choice_strings str getattr name_attribute choices =
     (let objs = (if name_attribute \<noteq> []
                  then map (\<lambda>obj. getattr obj name_attribute) choices
                  else choices);
          strings = map str objs
      in if strings = [] then Inl ValueError
         else if repeated strings then Inl ValueError
         else Inr strings)"

text \<open>The constants \<open>OK\<close> and \<open>CANCEL\<close> of \<open>pyface.constant\<close>, which the tests import.\<close>

datatype dialog_result = OK | CANCEL

text \<open>
  The traits of a \<open>SingleChoiceDialog\<close> the tests read (\<open>choice\<close>, \<open>return_code\<close>), the entry
  selected in its widget, and whether it is open.
\<close>

record SingleChoiceDialog =
  choice :: "string option"
  return_code :: dialog_result
  text_value :: string
  is_open :: bool

text \<open>
  What the tests do to the open dialog: \<open>setTextValue\<close> on its widget,
  \<open>close(accept=...)\<close> of the tester, \<open>close()\<close> of the widget.
\<close>

datatype dialog_event = setTextValue string | close_accept bool | widget_close

text \<open>
  Modelled from the spec: the open \<open>SingleChoiceDialog\<close> and the ways of closing it; the
  class and the modal dialog tester are not among the sources, the tests that drive them
  are. The spec: a closed dialog without explicit acceptance yields no chosen value. The
  tests: while the dialog is open the entry selected in its widget can be changed; closing
  with acceptance gives \<open>OK\<close> and the selected entry; closing without, by
  \<open>close(accept=False)\<close> or by closing the widget, gives \<open>CANCEL\<close> and \<open>None\<close>.
\<close>

fun dialog_step :: "SingleChoiceDialog \<Rightarrow> dialog_event \<Rightarrow> SingleChoiceDialog" where
  "dialog_step d (setTextValue entry) = d\<lparr>text_value := entry\<rparr>"
| "dialog_step d (close_accept True) =
     d\<lparr>is_open := False, return_code := OK, choice := Some (text_value d)\<rparr>"
| "dialog_step d (close_accept False) =
     d\<lparr>is_open := False, return_code := CANCEL, choice := None\<rparr>"
| "dialog_step d widget_close =
     d\<lparr>is_open := False, return_code := CANCEL, choice := None\<rparr>"

text \<open>
  Modelled from the spec: the modal run of the dialog (a blocking operation that suspends
  the caller until the dialog is closed). The events are handled in order while the
  dialog is open; those that come after it is closed do nothing.
\<close>

fun dialog_run :: "SingleChoiceDialog \<Rightarrow> dialog_event list \<Rightarrow> SingleChoiceDialog" where
  "dialog_run d [] = d"
| "dialog_run d (ev # evs) = (if is_open d then dialog_run (dialog_step d ev) evs else d)"

text \<open>The dialog of the tests when it has opened: the first of its choices is selected.\<close>

definition red_blue_green :: SingleChoiceDialog where
  "red_blue_green = \<lparr>choice = Some ''red'', return_code = OK, text_value = ''red'', is_open = True\<rparr>"

text \<open>A class object: its \<open>__name__\<close> and its \<open>__module__\<close>.\<close>

record pyclass =
  class_name :: string
  class_module :: string

text \<open>
  Modelled from the spec: the sentinel class of \<open>pyface.toolkit\<close> (not among the sources)
  that a failed resolution gives; the tests find it by its name \<open>Unimplemented\<close>.
\<close>

definition Unimplemented :: pyclass where
  "Unimplemented = \<lparr>class_name = ''Unimplemented'', class_module = ''pyface.toolkit''\<rparr>"

text \<open>The two parts of a string \<open>module:ClassName\<close>, cut at its first colon.\<close>

definition module_part :: "string \<Rightarrow> string" where
  "module_part spec = takeWhile (\<lambda>ch. ch \<noteq> CHR '':'') spec"

definition class_part :: "string \<Rightarrow> string" where
  "class_part spec = drop 1 (dropWhile (\<lambda>ch. ch \<noteq> CHR '':'') spec)"

text \<open>
  Modelled from the spec: \<open>toolkit_object\<close> of \<open>pyface.toolkit\<close>; the module is not among
  the sources, calls of the function are. The spec: a string naming
  \<open>module:ClassName\<close> is resolved against the active toolkit to obtain a concrete class,
  and a resolution failure surfaces as a sentinel class named \<open>Unimplemented\<close>. The active
  toolkit is the dictionary of its modules, each the dictionary of its classes.
\<close>

definition toolkit_object :: "(string \<rightharpoonup> (string \<rightharpoonup> pyclass)) \<Rightarrow> string \<Rightarrow> pyclass" where
  "toolkit_object toolkit spec =
     (case toolkit (module_part spec) of
        None \<Rightarrow> Unimplemented
      | Some md \<Rightarrow>
          (case md (class_part spec) of
             None \<Rightarrow> Unimplemented
           | Some cls \<Rightarrow> cls))"

text \<open>A toolkit with one module and one class, as the Qt toolkit has them.\<close>

definition qt4_toolkit :: "string \<rightharpoonup> (string \<rightharpoonup> pyclass)" where
  "qt4_toolkit =
     [''util.modal_dialog_tester'' \<mapsto>
        [''ModalDialogTester'' \<mapsto>
           \<lparr>class_name = ''ModalDialogTester'',
            class_module = ''pyface.ui.qt4.util.modal_dialog_tester''\<rparr>]]"

section \<open>Properties of PyShell\<close>

lemma wx_calls_wx [simp]: "wx_calls (wx c s) = wx_calls s @ [c]"
  by (simp add: wx_def)

lemma handlers_wx [simp]: "handlers (wx c s) = handlers s"
  by (simp add: wx_def)

lemma autocomp_list_wx [simp]: "autocomp_list (wx c s) = autocomp_list s"
  by (simp add: wx_def)







lemma count_list_CallHandler [simp]: "count_list (map CallHandler hs) EndBusyCursor = 0"
  by (induction hs) auto






lemma append_matching_list:
  "autocomp_list (append_matching f vs s) = autocomp_list s @ filter (\<lambda>v. startswith v f) vs"
  by (induction vs arbitrary: s) auto

lemma append_matching_calls [simp]: "wx_calls (append_matching f vs s) = wx_calls s"
  by (induction vs arbitrary: s) auto

lemma startswith_prefix: "startswith v p = prefix p v"
  by (metis startswith_def prefix_def append_eq_conv_conj append_take_drop_id)

text \<open>
  C4, as the code has it. \<open>autoCompleteShow\<close> asks the interpreter for the candidates of
  the command. When the interpreter returns a non-empty list: with a non-empty filter,
  \<open>autocomp_list\<close> becomes the candidates that start with the filter, in their order; with
  no filter (or an empty one) it becomes the whole candidate list; and the popup is shown
  with the entries of \<open>autocomp_list\<close> joined by spaces. When the interpreter returns an
  empty list, \<open>autocomp_list\<close> keeps the value it had and the popup is not shown.
\<close>

theorem autoCompleteShow_candidates:
  "(getAutoCompleteList command (autoCompleteIncludeMagic s) False False \<noteq> [] \<longrightarrow>
      (\<forall>f. filter' = Some f \<and> f \<noteq> [] \<longrightarrow>
         autocomp_list (autoCompleteShow getAutoCompleteList command offset filter' s) =
           filter (prefix f) (getAutoCompleteList command (autoCompleteIncludeMagic s) False False))
    \<and> (filter' = None \<or> filter' = Some [] \<longrightarrow>
         autocomp_list (autoCompleteShow getAutoCompleteList command offset filter' s) =
           getAutoCompleteList command (autoCompleteIncludeMagic s) False False)
    \<and> new_calls s (autoCompleteShow getAutoCompleteList command offset filter' s) =
         [AutoCompSetAutoHide (autoCompleteAutoHide s),
          AutoCompSetIgnoreCase (autoCompleteCaseInsensitive s),
          AutoCompShow offset
            (join '' '' (autocomp_list (autoCompleteShow getAutoCompleteList command offset filter' s)))])
   \<and> (getAutoCompleteList command (autoCompleteIncludeMagic s) False False = [] \<longrightarrow>
        autocomp_list (autoCompleteShow getAutoCompleteList command offset filter' s) = autocomp_list s
      \<and> new_calls s (autoCompleteShow getAutoCompleteList command offset filter' s) =
          [AutoCompSetAutoHide (autoCompleteAutoHide s),
           AutoCompSetIgnoreCase (autoCompleteCaseInsensitive s)])
   \<and> (list_ex is_AutoCompShow (new_calls s (autoCompleteShow getAutoCompleteList command offset filter' s))
        = (getAutoCompleteList command (autoCompleteIncludeMagic s) False False \<noteq> []))"
proof -
  let ?cands = "getAutoCompleteList command (autoCompleteIncludeMagic s) False False"
  let ?s' = "autoCompleteShow getAutoCompleteList command offset filter' s"
  have magic: "autoCompleteIncludeMagic (wx c2 (wx c1 s)) = autoCompleteIncludeMagic s" for c1 c2
    by (simp add: wx_def)
  have hide: "autoCompleteCaseInsensitive (wx c1 s) = autoCompleteCaseInsensitive s" for c1
    by (simp add: wx_def)
  have filtered: "autocomp_list ?s' = filter (prefix f) ?cands"
    if "?cands \<noteq> []" "filter' = Some f" "f \<noteq> []" for f
    using that
    by (simp add: autoCompleteShow_def Let_def magic append_matching_list startswith_prefix)
  have unfiltered: "autocomp_list ?s' = ?cands"
    if "?cands \<noteq> []" "filter' = None \<or> filter' = Some []"
    using that by (auto simp add: autoCompleteShow_def Let_def magic)
  have shown: "new_calls s ?s' =
      [AutoCompSetAutoHide (autoCompleteAutoHide s),
       AutoCompSetIgnoreCase (autoCompleteCaseInsensitive s),
       AutoCompShow offset (join '' '' (autocomp_list ?s'))]"
    if "?cands \<noteq> []"
    using that by (simp add: autoCompleteShow_def Let_def magic hide new_calls_def)
  have kept: "autocomp_list ?s' = autocomp_list s
      \<and> new_calls s ?s' = [AutoCompSetAutoHide (autoCompleteAutoHide s),
                           AutoCompSetIgnoreCase (autoCompleteCaseInsensitive s)]"
    if "?cands = []"
    using that by (simp add: autoCompleteShow_def Let_def magic hide new_calls_def)
  have popup: "list_ex is_AutoCompShow (new_calls s ?s') = (?cands \<noteq> [])"
  proof (cases "?cands = []")
    case True
    with kept show ?thesis by simp
  next
    case False
    with shown show ?thesis by simp
  qed
  from filtered unfiltered shown kept popup show ?thesis by blast
qed

theorem autoCompleteShow_candidates_witness:
  "autocomp_list (autoCompleteShow (\<lambda>c m s d. [''path'', ''open'', ''pipe'']) ''os.p'' 0 (Some ''p'')
      ((shell0 [])\<lparr>autocomp_list := [''zz'']\<rparr>)) = [''path'', ''pipe'']"
  using autoCompleteShow_candidates
          [of "\<lambda>c m s d. [''path'', ''open'', ''pipe'']" "''os.p''"
              "(shell0 [])\<lparr>autocomp_list := [''zz'']\<rparr>" "Some ''p''" 0]
  by (simp add: shell0_def)

text \<open>
  C4 as stated fails where the interpreter returns no candidate: with no filter given,
  \<open>autocomp_list\<close> should equal the (empty) candidate list, and it keeps the entry of an
  earlier completion.
\<close>

theorem autoCompleteShow_empty_counterexample:
  "autocomp_list (autoCompleteShow (\<lambda>c m s d. []) ''os.'' 0 None
      ((shell0 [])\<lparr>autocomp_list := [''path'']\<rparr>)) \<noteq> []"
  by (simp add: autoCompleteShow_def shell0_def wx_def)

section \<open>Properties of PythonShell.execute_file\<close>

lemma control_call_sys [simp]:
  "sys_argv (control_call c w) = sys_argv w"
  "sys_modules (control_call c w) = sys_modules w"
  "sys_stdin (control_call c w) = sys_stdin w"
  "sys_stdout (control_call c w) = sys_stdout w"
  "sys_stderr (control_call c w) = sys_stderr w"
  by (simp_all add: control_call_def)

lemma announce_sys [simp]:
  "sys_argv (announce path hidden w) = sys_argv w"
  "sys_modules (announce path hidden w) = sys_modules w"
  "sys_stdin (announce path hidden w) = sys_stdin w"
  "sys_stdout (announce path hidden w) = sys_stdout w"
  "sys_stderr (announce path hidden w) = sys_stderr w"
  by (simp_all add: announce_def)

lemma restore_sys [simp]:
  "sys_argv (restore a m i out err w) = a"
  "sys_modules (restore a m i out err w) ''__main__'' = Some m"
  "sys_stdin (restore a m i out err w) = i"
  "sys_stdout (restore a m i out err w) = out"
  "sys_stderr (restore a m i out err w) = err"
  by (simp_all add: restore_def)

lemma update_interpreter_sys [simp]:
  "sys_argv (snd (update_interpreter ns w)) = sys_argv w"
  "sys_modules (snd (update_interpreter ns w)) = sys_modules w"
  "sys_stdin (snd (update_interpreter ns w)) = sys_stdin w"
  "sys_stdout (snd (update_interpreter ns w)) = sys_stdout w"
  "sys_stderr (snd (update_interpreter ns w)) = sys_stderr w"
  by (simp_all add: update_interpreter_def split: sum.splits)

lemma script_world_streams:
  "sys_stdin (script_world basename path hidden w) = redirect_target hidden"
  "sys_stdout (script_world basename path hidden w) = redirect_target hidden"
  "sys_stderr (script_world basename path hidden w) = redirect_target hidden"
  by (simp_all add: script_world_def redirect_def redirect_target_def)

lemma execute_file_unfold:
  assumes "sys_modules w ''__main__'' = Some m"
  shows "execute_file basename script path hidden w =
     (case script path (prog_ns (basename path)) (script_world basename path hidden w) of
        (Some e, ns', w') \<Rightarrow>
          (Some e, restore (sys_argv w) m (sys_stdin w) (sys_stdout w) (sys_stderr w) w')
      | (None, ns', w') \<Rightarrow>
          update_interpreter ns'
            (restore (sys_argv w) m (sys_stdin w) (sys_stdout w) (sys_stderr w)
               (if \<not> hidden then control_call prompt w' else w')))"
  using assms
  by (simp add: execute_file_def execute_file_try_def script_world_def Let_def
      split: prod.splits option.splits)

text \<open>
  C1. Let \<open>sys.modules\<close> have a \<open>__main__\<close> entry. For every path, every value of \<open>hidden\<close>
  and every script: in the world in which \<open>execute_file\<close> starts the script, \<open>sys.stdin\<close>,
  \<open>sys.stdout\<close> and \<open>sys.stderr\<close> are the null I/O object when \<open>hidden\<close> is true and the
  shell control when it is false; \<open>execute_file\<close> runs the script in that world and in
  no other (a script that behaves the same there gives the same result); and when
  \<open>execute_file\<close> is left, \<open>sys.argv\<close>, \<open>sys.modules['__main__']\<close>, \<open>sys.stdin\<close>,
  \<open>sys.stdout\<close> and \<open>sys.stderr\<close> have the values they had before the call, whatever the
  script assigned to them, also when the script raises (its exception then leaves
  \<open>execute_file\<close>).
\<close>

theorem execute_file_redirects_and_restores:
  assumes "sys_modules w ''__main__'' = Some m"
  shows "sys_stdin (script_world basename path hidden w) = redirect_target hidden
    \<and> sys_stdout (script_world basename path hidden w) = redirect_target hidden
    \<and> sys_stderr (script_world basename path hidden w) = redirect_target hidden
    \<and> (\<forall>script'. script' path (prog_ns (basename path)) (script_world basename path hidden w)
                   = script path (prog_ns (basename path)) (script_world basename path hidden w)
          \<longrightarrow> execute_file basename script' path hidden w
              = execute_file basename script path hidden w)
    \<and> sys_argv (snd (execute_file basename script path hidden w)) = sys_argv w
    \<and> sys_modules (snd (execute_file basename script path hidden w)) ''__main__'' = Some m
    \<and> sys_stdin (snd (execute_file basename script path hidden w)) = sys_stdin w
    \<and> sys_stdout (snd (execute_file basename script path hidden w)) = sys_stdout w
    \<and> sys_stderr (snd (execute_file basename script path hidden w)) = sys_stderr w
    \<and> (\<forall>e. fst (script path (prog_ns (basename path)) (script_world basename path hidden w)) = Some e
          \<longrightarrow> fst (execute_file basename script path hidden w) = Some e)"
proof -
  note unfold = execute_file_unfold [OF assms]
  let ?r = "execute_file basename script path hidden w"
  have same: "\<forall>script'. script' path (prog_ns (basename path)) (script_world basename path hidden w)
                   = script path (prog_ns (basename path)) (script_world basename path hidden w)
          \<longrightarrow> execute_file basename script' path hidden w = ?r"
    by (simp add: unfold)
  have argv: "sys_argv (snd ?r) = sys_argv w"
    by (simp add: unfold split: prod.splits option.splits)
  have main: "sys_modules (snd ?r) ''__main__'' = Some m"
    by (simp add: unfold split: prod.splits option.splits)
  have stdin: "sys_stdin (snd ?r) = sys_stdin w"
    by (simp add: unfold split: prod.splits option.splits)
  have stdout: "sys_stdout (snd ?r) = sys_stdout w"
    by (simp add: unfold split: prod.splits option.splits)
  have stderr: "sys_stderr (snd ?r) = sys_stderr w"
    by (simp add: unfold split: prod.splits option.splits)
  have raised: "\<forall>e. fst (script path (prog_ns (basename path)) (script_world basename path hidden w)) = Some e
          \<longrightarrow> fst ?r = Some e"
    by (auto simp add: unfold split: prod.splits option.splits)
  from script_world_streams [of basename path hidden w] same argv main stdin stdout stderr raised
  show ?thesis by blast
qed

theorem execute_file_redirects_and_restores_witness:
  "sys_modules world0 ''__main__'' = Some (Module 0)
   \<and> sys_stdout (script_world posix_basename ''/tmp/run.py'' True world0) = NullIO
   \<and> fst (execute_file posix_basename raising_script ''/tmp/run.py'' True world0) = Some (Exception 7)
   \<and> sys_argv (snd (execute_file posix_basename raising_script ''/tmp/run.py'' True world0)) = [''app.py'']
   \<and> sys_modules (snd (execute_file posix_basename raising_script ''/tmp/run.py'' True world0)) ''__main__''
       = Some (Module 0)
   \<and> sys_stdout (snd (execute_file posix_basename raising_script ''/tmp/run.py'' True world0)) = Stream 1"
proof -
  have main: "sys_modules world0 ''__main__'' = Some (Module 0)"
    by (simp add: world0_def)
  note t = execute_file_redirects_and_restores
             [OF main, of posix_basename "''/tmp/run.py''" True raising_script]
  have raises: "fst (raising_script ''/tmp/run.py'' (prog_ns (posix_basename ''/tmp/run.py''))
                  (script_world posix_basename ''/tmp/run.py'' True world0)) = Some (Exception 7)"
    by (simp add: raising_script_def)
  have target: "sys_stdout (script_world posix_basename ''/tmp/run.py'' True world0) = NullIO"
    using t by (simp add: redirect_target_def)
  have exn: "fst (execute_file posix_basename raising_script ''/tmp/run.py'' True world0)
                = Some (Exception 7)"
    using t raises by blast
  have argv: "sys_argv (snd (execute_file posix_basename raising_script ''/tmp/run.py'' True world0))
                = sys_argv world0"
    using t by blast
  have out: "sys_stdout (snd (execute_file posix_basename raising_script ''/tmp/run.py'' True world0))
                = sys_stdout world0"
    using t by blast
  have modules: "sys_modules (snd (execute_file posix_basename raising_script ''/tmp/run.py'' True world0))
                ''__main__'' = Some (Module 0)"
    using t by blast
  have before: "sys_argv world0 = [''app.py'']" "sys_stdout world0 = Stream 1"
    by (simp_all add: world0_def)
  from main target exn argv out modules before show ?thesis by simp
qed

section \<open>Properties of MenuBarManager.create_menu_bar\<close>

lemma qt_call_simps [simp]:
  "qt_calls (qt_call c q) = qt_calls q @ [c]"
  "next_object (qt_call c q) = next_object q"
  "menu_bar_of (qt_call c q) = menu_bar_of q"
  by (simp_all add: qt_call_def)

lemma add_items_next: "next_object (add_items parent c bar its q) = next_object q + length its"
  by (induction its arbitrary: q) (simp_all add: item_create_menu_def Let_def)

lemma add_items_calls:
  "qt_calls (add_items parent c bar its q) =
     qt_calls q @ concat (map (item_calls parent c bar) (enumerate (next_object q) its))"
  by (induction its arbitrary: q) (simp_all add: item_create_menu_def Let_def item_calls_def)

lemma add_groups_calls:
  "qt_calls (add_groups parent c bar gs q) =
     qt_calls q @ concat (map (item_calls parent c bar)
                            (enumerate (next_object q) (concat (map items gs))))"
  by (induction gs arbitrary: q)
     (simp_all add: add_items_calls add_items_next enumerate_append_eq)

lemma the_menu_bar_darwin:
  "qt_calls (snd (the_menu_bar releases ''darwin'' (QMainWindow win) q)) =
     qt_calls q @
       [menuBar (QMainWindow win) (case menu_bar_of q win of Some b \<Rightarrow> b | None \<Rightarrow> next_object q),
        setParent_None (case menu_bar_of q win of Some b \<Rightarrow> b | None \<Rightarrow> next_object q),
        menuBar (QMainWindow win) (fst (the_menu_bar releases ''darwin'' (QMainWindow win) q))]"
  by (simp add: window_menuBar_def bar_setParent_None_def Let_def split: option.splits)

lemma the_menu_bar_darwin_kept:
  "fst (the_menu_bar False ''darwin'' (QMainWindow win) q) =
     (case menu_bar_of q win of Some b \<Rightarrow> b | None \<Rightarrow> next_object q)"
  by (simp add: window_menuBar_def bar_setParent_None_def Let_def split: option.splits)

lemma the_menu_bar_other:
  "\<not> (platform = ''darwin'' \<and> is_QMainWindow parent) \<Longrightarrow>
   qt_calls (snd (the_menu_bar releases platform parent q)) =
     qt_calls q @ [QMenuBar parent (fst (the_menu_bar releases platform parent q))]"
  by (cases parent) (simp_all add: new_QMenuBar_def Let_def)

text \<open>
  C6, as the code has it. \<open>create_menu_bar\<close> first obtains the menu bar: on the \<open>darwin\<close>
  platform with a \<open>QMainWindow\<close> parent it calls \<open>parent.menuBar()\<close> (which gives the
  window's existing menu bar \<open>old\<close>, if it has one), calls \<open>setParent(None)\<close> on the result,
  and takes what a second call of \<open>parent.menuBar()\<close> returns, never calling the
  constructor \<open>QMenuBar\<close> itself; otherwise it constructs \<open>QMenuBar(parent)\<close>. Then, for
  each item of each group in the order of declaration, it makes these calls and no
  others: \<open>item.create_menu(parent, controller)\<close>, which gives a menu of its own to each
  item (the menus are numbered \<open>first\<close>, \<open>first + 1\<close>, ...), \<open>setText(item.name)\<close> on the
  action of that menu, and \<open>addMenu\<close> of that menu to the menu bar it returns. The
  controller passed on is the argument when one is given, the manager's trait otherwise.
  The returned menu bar is the existing one where the window keeps a menu bar that was
  given another parent.
\<close>

theorem create_menu_bar_menus:
  "\<exists>old first.
     new_qt_calls q (snd (create_menu_bar releases platform self parent controller' q)) =
       (if platform = ''darwin'' \<and> is_QMainWindow parent
        then [menuBar parent old, setParent_None old,
              menuBar parent (fst (create_menu_bar releases platform self parent controller' q))]
        else [QMenuBar parent (fst (create_menu_bar releases platform self parent controller' q))])
       @ concat (map (item_calls parent
                        (case controller' of None \<Rightarrow> controller self | Some x \<Rightarrow> Some x)
                        (fst (create_menu_bar releases platform self parent controller' q)))
                     (enumerate first (all_items self)))
     \<and> (\<forall>win b. parent = QMainWindow win \<and> menu_bar_of q win = Some b \<longrightarrow> old = b)
     \<and> (platform = ''darwin'' \<and> is_QMainWindow parent \<and> \<not> releases \<longrightarrow>
          fst (create_menu_bar releases platform self parent controller' q) = old)"
proof (cases "platform = ''darwin'' \<and> is_QMainWindow parent")
  case True
  then obtain win where parent: "parent = QMainWindow win" and darwin: "platform = ''darwin''"
    by (cases parent) auto
  let ?old = "case menu_bar_of q win of Some b \<Rightarrow> b | None \<Rightarrow> next_object q"
  let ?q1 = "snd (the_menu_bar releases platform parent q)"
  have calls: "new_qt_calls q (snd (create_menu_bar releases platform self parent controller' q)) =
       [menuBar parent ?old, setParent_None ?old,
        menuBar parent (fst (create_menu_bar releases platform self parent controller' q))]
       @ concat (map (item_calls parent
                        (case controller' of None \<Rightarrow> controller self | Some x \<Rightarrow> Some x)
                        (fst (create_menu_bar releases platform self parent controller' q)))
                     (enumerate (next_object ?q1) (all_items self)))"
    unfolding parent darwin
    by (simp add: create_menu_bar_def split_def Let_def new_qt_calls_def add_groups_calls
        the_menu_bar_darwin all_items_def del: the_menu_bar.simps)
  have kept: "\<not> releases \<longrightarrow>
      fst (create_menu_bar releases platform self parent controller' q) = ?old"
    unfolding parent darwin
    by (simp add: create_menu_bar_def split_def Let_def the_menu_bar_darwin_kept
        del: the_menu_bar.simps)
  have old: "\<forall>win' b. parent = QMainWindow win' \<and> menu_bar_of q win' = Some b \<longrightarrow> ?old = b"
    by (simp add: parent)
  from True calls kept old show ?thesis by auto
next
  case False
  let ?q1 = "snd (the_menu_bar releases platform parent q)"
  have calls: "new_qt_calls q (snd (create_menu_bar releases platform self parent controller' q)) =
       [QMenuBar parent (fst (create_menu_bar releases platform self parent controller' q))]
       @ concat (map (item_calls parent
                        (case controller' of None \<Rightarrow> controller self | Some x \<Rightarrow> Some x)
                        (fst (create_menu_bar releases platform self parent controller' q)))
                     (enumerate (next_object ?q1) (all_items self)))"
    by (simp add: create_menu_bar_def split_def Let_def new_qt_calls_def add_groups_calls
        the_menu_bar_other [OF False] all_items_def)
  let ?old = "case parent of QMainWindow win \<Rightarrow> (case menu_bar_of q win of Some b \<Rightarrow> b | None \<Rightarrow> 0) | _ \<Rightarrow> 0"
  have old: "\<forall>win b. parent = QMainWindow win \<and> menu_bar_of q win = Some b \<longrightarrow> ?old = b"
    by simp
  let ?first = "next_object ?q1"
  from False calls old show ?thesis
    by (rule_tac x = ?old in exI, rule_tac x = ?first in exI) auto
qed

theorem create_menu_bar_menus_witness:
  "fst (create_menu_bar False ''darwin'' file_edit_help (QMainWindow 0) (Some 41) qt0) = 5
   \<and> new_qt_calls qt0 (snd (create_menu_bar False ''darwin'' file_edit_help (QMainWindow 0) (Some 41) qt0)) =
       [menuBar (QMainWindow 0) 5, setParent_None 5, menuBar (QMainWindow 0) 5,
        create_menu \<lparr>name = ''File'', manager_id = 1\<rparr> (QMainWindow 0) (Some 41) 10,
        setText 10 ''File'', addMenu 5 10,
        create_menu \<lparr>name = ''Edit'', manager_id = 2\<rparr> (QMainWindow 0) (Some 41) 11,
        setText 11 ''Edit'', addMenu 5 11,
        create_menu \<lparr>name = ''Help'', manager_id = 3\<rparr> (QMainWindow 0) (Some 41) 12,
        setText 12 ''Help'', addMenu 5 12]"
proof -
  obtain old first where
    calls: "new_qt_calls qt0 (snd (create_menu_bar False ''darwin'' file_edit_help (QMainWindow 0) (Some 41) qt0)) =
       [menuBar (QMainWindow 0) old, setParent_None old,
        menuBar (QMainWindow 0) (fst (create_menu_bar False ''darwin'' file_edit_help (QMainWindow 0) (Some 41) qt0))]
       @ concat (map (item_calls (QMainWindow 0) (Some 41)
                        (fst (create_menu_bar False ''darwin'' file_edit_help (QMainWindow 0) (Some 41) qt0)))
                     (enumerate first (all_items file_edit_help)))"
    and old: "\<forall>win b. QMainWindow 0 = QMainWindow win \<and> menu_bar_of qt0 win = Some b \<longrightarrow> old = b"
    and kept: "fst (create_menu_bar False ''darwin'' file_edit_help (QMainWindow 0) (Some 41) qt0) = old"
    using create_menu_bar_menus [of qt0 False "''darwin''" file_edit_help "QMainWindow 0" "Some 41"]
    by auto
  have "menu_bar_of qt0 0 = Some 5"
    by (simp add: qt0_def)
  with old have old5: "old = 5" by blast
  have first: "hd (drop 3 (new_qt_calls qt0 (snd (create_menu_bar False ''darwin'' file_edit_help (QMainWindow 0) (Some 41) qt0))))
      = create_menu \<lparr>name = ''File'', manager_id = 1\<rparr> (QMainWindow 0) (Some 41) 10"
    by (simp add: create_menu_bar_def qt0_def file_edit_help_def new_qt_calls_def window_menuBar_def
        bar_setParent_None_def item_create_menu_def qt_call_def Let_def)
  have items: "all_items file_edit_help =
      [\<lparr>name = ''File'', manager_id = 1\<rparr>, \<lparr>name = ''Edit'', manager_id = 2\<rparr>,
       \<lparr>name = ''Help'', manager_id = 3\<rparr>]"
    by (simp add: all_items_def file_edit_help_def)
  from first have "first = 10"
    unfolding calls items by (simp add: item_calls_def)
  with calls old5 kept items show ?thesis
    by (simp add: item_calls_def)
qed

text \<open>
  C6 as stated fails where the window lets go of a menu bar that is given another parent:
  main window 0 holds menu bar 5, and the menu bar returned is not 5 but one that the
  second call of \<open>parent.menuBar()\<close> creates.
\<close>

theorem create_menu_bar_reuse_counterexample:
  "menu_bar_of qt0 0 = Some 5
   \<and> fst (create_menu_bar True ''darwin'' file_edit_help (QMainWindow 0) None qt0) \<noteq> 5"
  by (simp add: create_menu_bar_def qt0_def window_menuBar_def bar_setParent_None_def
      qt_call_def Let_def split_def)

section \<open>Properties of GuiTestAssistant.event_loop_until_traits_change\<close>

lemma install_all:
  "foldl (\<lambda>s trait. on_trait_change trait s) s ts =
     s\<lparr>installed := installed s @ ts\<rparr>"
  by (induction ts arbitrary: s) (simp_all add: on_trait_change_def)

lemma armed_fields:
  "condition (armed traits) = (set traits = {})"
  "recorded_changes (armed traits) = {}"
  "installed (armed traits) = remdups traits"
  "rounds (armed traits) = 0"
  by (simp_all add: armed_def Let_def install_all)

lemma armed_inv: "loop_inv (set traits) (armed traits)"
  by (auto simp add: loop_inv_def armed_fields)

lemma trait_changed_inv:
  assumes "loop_inv T s"
  shows "loop_inv T (trait_changed T t s)"
    and "recorded_changes (trait_changed T t s) = recorded_changes s \<union> ({t} \<inter> T)"
    and "installed (trait_changed T t s) = installed s"
    and "rounds (trait_changed T t s) = rounds s"
  using assms
  by (auto simp add: loop_inv_def trait_changed_def set_event_def Let_def)

lemma deliver_inv:
  assumes "loop_inv T s"
  shows "loop_inv T (deliver T ns s)
       \<and> recorded_changes (deliver T ns s) = recorded_changes s \<union> (set ns \<inter> T)
       \<and> installed (deliver T ns s) = installed s
       \<and> rounds (deliver T ns s) = rounds s"
  using assms
proof (induction ns arbitrary: s)
  case Nil
  then show ?case by simp
next
  case (Cons t ns)
  note step = trait_changed_inv [OF Cons.prems, of t]
  from Cons.IH [OF step(1)] step(2,3,4) show ?case by auto
qed

lemma deliver_armed:
  "loop_inv (set traits) (deliver (set traits) ns (armed traits))"
  "recorded_changes (deliver (set traits) ns (armed traits)) = set ns \<inter> set traits"
  "installed (deliver (set traits) ns (armed traits)) = remdups traits"
  "rounds (deliver (set traits) ns (armed traits)) = 0"
  "condition (deliver (set traits) ns (armed traits)) = (set traits \<subseteq> set ns)"
proof -
  let ?s = "deliver (set traits) ns (armed traits)"
  have all: "loop_inv (set traits) ?s
       \<and> recorded_changes ?s = recorded_changes (armed traits) \<union> (set ns \<inter> set traits)
       \<and> installed ?s = installed (armed traits)
       \<and> rounds ?s = rounds (armed traits)"
    by (rule deliver_inv) (rule armed_inv)
  then show inv: "loop_inv (set traits) ?s" by simp
  from all show rec: "recorded_changes ?s = set ns \<inter> set traits"
    by (simp add: armed_fields)
  from all show "installed ?s = remdups traits" by (simp add: armed_fields)
  from all show "rounds ?s = 0" by (simp add: armed_fields)
  from inv rec show "condition ?s = (set traits \<subseteq> set ns)"
    by (auto simp add: loop_inv_def)
qed

lemma helper_inv:
  assumes "loop_inv T s"
  shows "loop_inv T (snd (helper_event_loop_until_condition T ticks s))
       \<and> recorded_changes (snd (helper_event_loop_until_condition T ticks s)) =
           recorded_changes s
           \<union> (set (concat (take (rounds (snd (helper_event_loop_until_condition T ticks s)) - rounds s) ticks)) \<inter> T)
       \<and> installed (snd (helper_event_loop_until_condition T ticks s)) = installed s
       \<and> rounds s \<le> rounds (snd (helper_event_loop_until_condition T ticks s))
       \<and> rounds (snd (helper_event_loop_until_condition T ticks s)) \<le> rounds s + length ticks
       \<and> (condition s \<longrightarrow> helper_event_loop_until_condition T ticks s = (None, s))
       \<and> fst (helper_event_loop_until_condition T ticks s) =
           (if condition (snd (helper_event_loop_until_condition T ticks s)) then None
            else Some ConditionTimeoutError)
       \<and> (\<not> condition (snd (helper_event_loop_until_condition T ticks s)) \<longrightarrow>
            rounds (snd (helper_event_loop_until_condition T ticks s)) = rounds s + length ticks)"
  using assms
proof (induction ticks arbitrary: s)
  case Nil
  then show ?case by simp
next
  case (Cons tick ticks)
  show ?case
  proof (cases "condition s")
    case True
    with Cons.prems show ?thesis by simp
  next
    case False
    let ?s1 = "(deliver T tick s)\<lparr>rounds := Suc (rounds s)\<rparr>"
    from deliver_inv [OF Cons.prems, of tick]
    have d: "loop_inv T (deliver T tick s)"
      "recorded_changes (deliver T tick s) = recorded_changes s \<union> (set tick \<inter> T)"
      "installed (deliver T tick s) = installed s"
      by simp_all
    have inv1: "loop_inv T ?s1"
      using d(1) by (simp add: loop_inv_def)
    have f1: "recorded_changes ?s1 = recorded_changes s \<union> (set tick \<inter> T)"
      "installed ?s1 = installed s" "rounds ?s1 = Suc (rounds s)"
      using d by simp_all
    have unfold: "helper_event_loop_until_condition T (tick # ticks) s =
        helper_event_loop_until_condition T ticks ?s1"
      using False by simp
    let ?r = "helper_event_loop_until_condition T ticks ?s1"
    note ih = Cons.IH [OF inv1]
    have le: "Suc (rounds s) \<le> rounds (snd ?r)"
      using ih f1 by simp
    then have "rounds (snd ?r) - rounds s = Suc (rounds (snd ?r) - Suc (rounds s))"
      by arith
    then have tk: "take (rounds (snd ?r) - rounds s) (tick # ticks) =
        tick # take (rounds (snd ?r) - Suc (rounds s)) ticks"
      by simp
    show ?thesis
      unfolding unfold tk
      using ih f1 le False by auto
  qed
qed


lemma remove_all_list: "foldl (\<lambda>l t. remove1 t l) (xs @ ys) xs = ys"
  by (induction xs) simp_all

lemma remove_all:
  "foldl (\<lambda>s trait. on_trait_change_remove trait s) s ts =
     s\<lparr>installed := foldl (\<lambda>l t. remove1 t l) (installed s) ts\<rparr>"
  by (induction ts arbitrary: s) (simp_all add: on_trait_change_remove_def)

lemma until_condition_state:
  "snd (event_loop_until_condition T body ticks s) =
     (case snd body of
        Some x \<Rightarrow> deliver T (fst body) s
      | None \<Rightarrow> snd (helper_event_loop_until_condition T ticks (deliver T (fst body) s)))"
  by (simp add: event_loop_until_condition_def Let_def split_def split: option.splits)

lemma until_condition_result:
  "fst (event_loop_until_condition T body ticks s) =
     (case snd body of
        Some x \<Rightarrow> Some (if x = ConditionTimeoutError then AssertionError else x)
      | None \<Rightarrow>
          (if fst (helper_event_loop_until_condition T ticks (deliver T (fst body) s))
                = Some ConditionTimeoutError
           then Some AssertionError
           else fst (helper_event_loop_until_condition T ticks (deliver T (fst body) s))))"
  by (simp add: event_loop_until_condition_def Let_def split_def split: option.splits)

lemma traits_change_state:
  "snd (event_loop_until_traits_change traits body ticks) =
     (snd (event_loop_until_condition (set traits) body ticks (armed traits)))
       \<lparr>installed := foldl (\<lambda>l t. remove1 t l)
          (installed (snd (event_loop_until_condition (set traits) body ticks (armed traits))))
          (remdups traits)\<rparr>"
  by (simp add: event_loop_until_traits_change_def split_def Let_def remove_all)

lemma traits_change_result:
  "fst (event_loop_until_traits_change traits body ticks) =
     fst (event_loop_until_condition (set traits) body ticks (armed traits))"
  by (simp add: event_loop_until_traits_change_def split_def Let_def)

lemma inner_facts:
  fixes traits :: "string list" and body :: block and ticks :: "string list list"
  defines "s3 \<equiv> snd (event_loop_until_condition (set traits) body ticks (armed traits))"
  shows "installed s3 = remdups traits"
    and "condition s3 = (set traits \<subseteq> set (delivered body ticks (rounds s3)))"
    and "recorded_changes s3 = set traits \<inter> set (delivered body ticks (rounds s3))"
    and "snd body \<noteq> None \<longrightarrow> rounds s3 = 0"
    and "snd body = None \<longrightarrow>
           fst (event_loop_until_condition (set traits) body ticks (armed traits)) =
             (if condition s3 then None else Some AssertionError)"
    and "snd body = None \<and> \<not> condition s3 \<longrightarrow> rounds s3 = length ticks"
    and "snd body = None \<and> condition (deliver (set traits) (fst body) (armed traits)) \<longrightarrow> rounds s3 = 0"
proof -
  let ?T = "set traits"
  let ?s1 = "deliver ?T (fst body) (armed traits)"
  have d: "loop_inv ?T ?s1" "recorded_changes ?s1 = set (fst body) \<inter> ?T"
    "installed ?s1 = remdups traits" "rounds ?s1 = 0"
    by (simp_all add: deliver_armed)
  note h = helper_inv [OF d(1), of ticks]
  let ?s2 = "snd (helper_event_loop_until_condition ?T ticks ?s1)"
  have h_inv: "loop_inv ?T ?s2" using h by simp
  have h_rec: "recorded_changes ?s2 = ?T \<inter> set (delivered body ticks (rounds ?s2))"
    using h d by (auto simp add: delivered_def)
  have h_cond: "condition ?s2 = (?T \<subseteq> set (delivered body ticks (rounds ?s2)))"
    using h_inv h_rec by (auto simp add: loop_inv_def)
  have d_cond: "condition ?s1 = (?T \<subseteq> set (fst body))"
    by (simp add: deliver_armed)
  show "installed s3 = remdups traits"
    using h d by (simp add: s3_def until_condition_state split: option.splits)
  show "condition s3 = (set traits \<subseteq> set (delivered body ticks (rounds s3)))"
    using h_cond d_cond d(4)
    by (simp add: s3_def until_condition_state delivered_def split: option.splits)
  show "recorded_changes s3 = set traits \<inter> set (delivered body ticks (rounds s3))"
    using h_rec d
    by (auto simp add: s3_def until_condition_state delivered_def split: option.splits)
  show "snd body \<noteq> None \<longrightarrow> rounds s3 = 0"
    using d(4) by (auto simp add: s3_def until_condition_state)
  show "snd body = None \<longrightarrow>
           fst (event_loop_until_condition (set traits) body ticks (armed traits)) =
             (if condition s3 then None else Some AssertionError)"
    using h by (simp add: s3_def until_condition_state until_condition_result)
  show "snd body = None \<and> \<not> condition s3 \<longrightarrow> rounds s3 = length ticks"
    using h d(4) by (auto simp add: s3_def until_condition_state)
  show "snd body = None \<and> condition (deliver (set traits) (fst body) (armed traits)) \<longrightarrow> rounds s3 = 0"
    using h d(4) by (auto simp add: s3_def until_condition_state)
qed

text \<open>
  C9. With no trait name, the condition is set in the state \<open>armed\<close>, before the block and
  the event loop are entered, and a block that does not raise completes with no round
  of the event loop, whatever the timeout allows. For any trait names, after any
  sequence of change notifications the condition is set exactly when a notification has
  come for every listed trait (and the recorded changes are the listed traits notified);
  so it is when the context manager is left, where a block that does not raise ends
  normally if the condition is set and with a test failure, after all rounds the
  timeout allows, if it is not. One handler per distinct trait name is installed, and
  none is left installed afterwards, also when the block raises (its exception passes,
  a \<open>ConditionTimeoutError\<close> as a test failure).
\<close>

theorem event_loop_until_traits_change_condition:
  "(set traits = {} \<longrightarrow> condition (armed traits))
   \<and> (set traits = {} \<and> snd body = None \<longrightarrow>
        fst (event_loop_until_traits_change traits body ticks) = None
        \<and> rounds (snd (event_loop_until_traits_change traits body ticks)) = 0)
   \<and> (\<forall>ns. condition (deliver (set traits) ns (armed traits)) = (set traits \<subseteq> set ns)
           \<and> recorded_changes (deliver (set traits) ns (armed traits)) = set traits \<inter> set ns)
   \<and> condition (snd (event_loop_until_traits_change traits body ticks)) =
        (set traits \<subseteq> set (delivered body ticks
                              (rounds (snd (event_loop_until_traits_change traits body ticks)))))
   \<and> (snd body = None \<longrightarrow>
        fst (event_loop_until_traits_change traits body ticks) =
          (if condition (snd (event_loop_until_traits_change traits body ticks)) then None
           else Some AssertionError))
   \<and> (snd body = None \<and> fst (event_loop_until_traits_change traits body ticks) \<noteq> None \<longrightarrow>
        rounds (snd (event_loop_until_traits_change traits body ticks)) = length ticks)
   \<and> installed (armed traits) = remdups traits
   \<and> installed (snd (event_loop_until_traits_change traits body ticks)) = []
   \<and> (\<forall>e. snd body = Some e \<longrightarrow>
        fst (event_loop_until_traits_change traits body ticks) =
          Some (if e = ConditionTimeoutError then AssertionError else e))"
proof -
  let ?r = "event_loop_until_traits_change traits body ticks"
  let ?s3 = "snd (event_loop_until_condition (set traits) body ticks (armed traits))"
  note inner = inner_facts [where traits = traits and body = body and ticks = ticks]
  have fields: "condition (snd ?r) = condition ?s3" "rounds (snd ?r) = rounds ?s3"
    by (simp_all add: traits_change_state)
  have at_once: "set traits = {} \<longrightarrow> condition (armed traits)"
    by (simp add: armed_fields)
  have no_wait: "set traits = {} \<and> snd body = None \<longrightarrow> fst ?r = None \<and> rounds (snd ?r) = 0"
  proof (intro impI)
    assume a: "set traits = {} \<and> snd body = None"
    then have e: "set traits = {}" and b: "snd body = None" by blast+
    have c3: "condition ?s3"
      using e inner(2) by simp
    have c1: "condition (deliver (set traits) (fst body) (armed traits))"
      using e deliver_armed(5) [of traits "fst body"] by simp
    from inner(7) b c1 have r0: "rounds ?s3 = 0" by blast
    from inner(5) b
    have "fst (event_loop_until_condition (set traits) body ticks (armed traits)) =
        (if condition ?s3 then None else Some AssertionError)"
      by blast
    with c3 have "fst (event_loop_until_condition (set traits) body ticks (armed traits)) = None"
      by simp
    with r0 show "fst ?r = None \<and> rounds (snd ?r) = 0"
      by (simp only: traits_change_result fields simp_thms)
  qed
  have exactly: "\<forall>ns. condition (deliver (set traits) ns (armed traits)) = (set traits \<subseteq> set ns)
           \<and> recorded_changes (deliver (set traits) ns (armed traits)) = set traits \<inter> set ns"
  proof
    fix ns
    show "condition (deliver (set traits) ns (armed traits)) = (set traits \<subseteq> set ns)
           \<and> recorded_changes (deliver (set traits) ns (armed traits)) = set traits \<inter> set ns"
      by (auto simp add: deliver_armed)
  qed
  have final: "condition (snd ?r) = (set traits \<subseteq> set (delivered body ticks (rounds (snd ?r))))"
    using inner(2) by (simp add: fields)
  have result: "snd body = None \<longrightarrow>
      fst ?r = (if condition (snd ?r) then None else Some AssertionError)"
    using inner(5) by (simp add: traits_change_result fields)
  have timeout: "snd body = None \<and> fst ?r \<noteq> None \<longrightarrow> rounds (snd ?r) = length ticks"
    using inner(5) inner(6) by (auto simp add: traits_change_result fields split: if_splits)
  have installed: "installed (armed traits) = remdups traits"
    by (simp add: armed_fields)
  have removed: "installed (snd ?r) = []"
    using remove_all_list [of "remdups traits" "[]"]
    by (simp add: traits_change_state inner(1))
  have raised: "\<forall>e. snd body = Some e \<longrightarrow>
      fst ?r = Some (if e = ConditionTimeoutError then AssertionError else e)"
    by (simp add: traits_change_result until_condition_result)
  from at_once no_wait exactly final result timeout installed removed raised
  show ?thesis by blast
qed

theorem event_loop_until_traits_change_condition_witness:
  "condition (armed [])
   \<and> fst (event_loop_until_traits_change [] ([], None) []) = None
   \<and> rounds (snd (event_loop_until_traits_change [] ([], None) [])) = 0
   \<and> installed (snd (event_loop_until_traits_change [] ([], None) [])) = []
   \<and> installed (armed [''a'', ''b'', ''a'']) = [''b'', ''a'']
   \<and> fst (event_loop_until_traits_change [''a'', ''b'', ''a''] ([''a''], Some (Exception 3)) [[''b'']])
       = Some (Exception 3)
   \<and> installed (snd (event_loop_until_traits_change [''a'', ''b'', ''a'']
                         ([''a''], Some (Exception 3)) [[''b'']])) = []"
  using event_loop_until_traits_change_condition [of "[]" "([], None)" "[]"]
    event_loop_until_traits_change_condition
      [of "[''a'', ''b'', ''a'']" "([''a''], Some (Exception 3))" "[[''b'']]"]
  by simp

section \<open>Properties of the modelled SingleChoiceDialog and toolkit_object\<close>

lemma repeated_distinct: "repeated xs = (\<not> distinct xs)"
  by (induction xs) auto

text \<open>
  C2, on the model of \<open>_choice_strings\<close>. It raises \<open>ValueError\<close> when the list of choices
  is empty and when the strings of the choices (of their attributes named
  \<open>name_attribute\<close>, when that is set) have a duplicate; for a non-empty list whose
  strings are distinct it returns those strings, in the order of the choices.
\<close>

theorem choice_strings_rejects_empty_and_duplicates:
  "(choices = [] \<longrightarrow> choice_strings str getattr name_attribute choices = Inl ValueError)
   \<and> (name_attribute = [] \<and> \<not> distinct (map str choices) \<longrightarrow>
        choice_strings str getattr name_attribute choices = Inl ValueError)
   \<and> (name_attribute \<noteq> [] \<and> \<not> distinct (map (\<lambda>obj. str (getattr obj name_attribute)) choices) \<longrightarrow>
        choice_strings str getattr name_attribute choices = Inl ValueError)
   \<and> (name_attribute = [] \<and> choices \<noteq> [] \<and> distinct (map str choices) \<longrightarrow>
        choice_strings str getattr name_attribute choices = Inr (map str choices))
   \<and> (name_attribute \<noteq> [] \<and> choices \<noteq> []
        \<and> distinct (map (\<lambda>obj. str (getattr obj name_attribute)) choices) \<longrightarrow>
        choice_strings str getattr name_attribute choices =
          Inr (map (\<lambda>obj. str (getattr obj name_attribute)) choices))"
  by (simp add: choice_strings_def Let_def repeated_distinct comp_def)

theorem choice_strings_rejects_empty_and_duplicates_witness:
  "choice_strings (\<lambda>obj. obj) (\<lambda>obj attr. obj) [] [''red'', ''blue'', ''green'']
     = Inr [''red'', ''blue'', ''green'']
   \<and> choice_strings (\<lambda>obj. obj) (\<lambda>obj attr. obj) [] [''red'', ''green'', ''blue'', ''green'']
     = Inl ValueError
   \<and> choice_strings (\<lambda>obj. obj) (\<lambda>obj attr. obj) [] [] = Inl ValueError"
  using choice_strings_rejects_empty_and_duplicates
          [of "[''red'', ''blue'', ''green'']" "\<lambda>obj. obj" "\<lambda>obj attr. obj" "[]"]
        choice_strings_rejects_empty_and_duplicates
          [of "[''red'', ''green'', ''blue'', ''green'']" "\<lambda>obj. obj" "\<lambda>obj attr. obj" "[]"]
        choice_strings_rejects_empty_and_duplicates
          [of "[]" "\<lambda>obj. obj" "\<lambda>obj attr. obj" "[]"]
  by simp

lemma dialog_run_selections:
  "is_open d \<Longrightarrow>
   dialog_run d (map setTextValue sel @ [ev]) =
     dialog_step (d\<lparr>text_value := last (text_value d # sel)\<rparr>) ev"
  by (induction sel arbitrary: d) auto

text \<open>
  C3, on the model of the dialog. From an open dialog, after any sequence of selections
  in the widget: closing with \<open>accept=False\<close> and closing the widget both leave
  \<open>return_code = CANCEL\<close> and \<open>choice = None\<close>, whatever was selected; closing with
  \<open>accept=True\<close> leaves \<open>return_code = OK\<close> and \<open>choice\<close> the entry selected last (the one
  selected at opening when no selection was made).
\<close>

theorem dialog_closed_without_acceptance:
  assumes "is_open d"
  shows "return_code (dialog_run d (map setTextValue sel @ [close_accept False])) = CANCEL
       \<and> choice (dialog_run d (map setTextValue sel @ [close_accept False])) = None
       \<and> return_code (dialog_run d (map setTextValue sel @ [widget_close])) = CANCEL
       \<and> choice (dialog_run d (map setTextValue sel @ [widget_close])) = None
       \<and> return_code (dialog_run d (map setTextValue sel @ [close_accept True])) = OK
       \<and> choice (dialog_run d (map setTextValue sel @ [close_accept True]))
           = Some (last (text_value d # sel))
       \<and> \<not> is_open (dialog_run d (map setTextValue sel @ [close_accept False]))
       \<and> \<not> is_open (dialog_run d (map setTextValue sel @ [widget_close]))
       \<and> \<not> is_open (dialog_run d (map setTextValue sel @ [close_accept True]))"
  by (simp add: dialog_run_selections [OF assms])

theorem dialog_closed_without_acceptance_witness:
  "is_open red_blue_green
   \<and> return_code (dialog_run red_blue_green [setTextValue ''green'', widget_close]) = CANCEL
   \<and> choice (dialog_run red_blue_green [setTextValue ''green'', widget_close]) = None
   \<and> choice (dialog_run red_blue_green [setTextValue ''green'', close_accept False]) = None
   \<and> choice (dialog_run red_blue_green [setTextValue ''green'', close_accept True]) = Some ''green''
   \<and> choice (dialog_run red_blue_green [close_accept True]) = Some ''red''"
proof -
  have opened: "is_open red_blue_green"
    by (simp add: red_blue_green_def)
  have first: "text_value red_blue_green = ''red''"
    by (simp add: red_blue_green_def)
  from opened first
    dialog_closed_without_acceptance [OF opened, of "[''green'']"]
    dialog_closed_without_acceptance [OF opened, of "[]"]
  show ?thesis by simp
qed

lemma cut_at_colon:
  assumes "CHR '':'' \<notin> set mname"
  shows "module_part (mname @ CHR '':'' # oname) = mname"
    and "class_part (mname @ CHR '':'' # oname) = oname"
  using assms
  by (simp_all add: module_part_def class_part_def takeWhile_append dropWhile_append
      takeWhile_eq_all_conv dropWhile_eq_Nil_conv)

text \<open>
  C5, on the model of \<open>toolkit_object\<close>. For a specification \<open>module:ClassName\<close> (no colon
  in the module part): when the active toolkit has no such module, or the module no such
  class, the function returns a class whose \<open>__name__\<close> is \<open>Unimplemented\<close> (it returns,
  it does not raise); when the class is there, it returns that class.
\<close>

theorem toolkit_object_unimplemented:
  assumes "CHR '':'' \<notin> set mname"
  shows "(toolkit mname = None \<longrightarrow>
           class_name (toolkit_object toolkit (mname @ '':'' @ oname)) = ''Unimplemented'')
       \<and> (\<forall>md. toolkit mname = Some md \<and> md oname = None \<longrightarrow>
           class_name (toolkit_object toolkit (mname @ '':'' @ oname)) = ''Unimplemented'')
       \<and> (\<forall>md cls. toolkit mname = Some md \<and> md oname = Some cls \<longrightarrow>
           toolkit_object toolkit (mname @ '':'' @ oname) = cls)"
  by (simp add: toolkit_object_def cut_at_colon [OF assms] Unimplemented_def)

theorem toolkit_object_unimplemented_witness:
  "CHR '':'' \<notin> set ''util.modal_dialog_tester''
   \<and> class_name (toolkit_object Map.empty ''util.modal_dialog_tester:ModalDialogTester'')
       = ''Unimplemented''
   \<and> class_name (toolkit_object qt4_toolkit ''util.modal_dialog_tester:Missing'')
       = ''Unimplemented''
   \<and> class_name (toolkit_object qt4_toolkit ''util.modal_dialog_tester:ModalDialogTester'')
       = ''ModalDialogTester''"
proof -
  have colon: "CHR '':'' \<notin> set ''util.modal_dialog_tester''"
    by simp
  from colon
    toolkit_object_unimplemented [OF colon, of Map.empty "''ModalDialogTester''"]
    toolkit_object_unimplemented [OF colon, of qt4_toolkit "''Missing''"]
    toolkit_object_unimplemented [OF colon, of qt4_toolkit "''ModalDialogTester''"]
  show ?thesis by (simp add: qt4_toolkit_def)
qed

end
